theory Spec2Isabelle
  imports Main
begin

section \<open>Python values and string helpers\<close>

text \<open>
  A Python \<open>str\<close> is modelled as a \<open>string\<close>: a list of characters whose code points are
  below 256, one \<open>char\<close> per code point. An attribute read with
  \<open>getattr(obj, name, default)\<close> is a field that holds the default when the attribute is
  absent, so an absent string attribute is the empty string.
\<close>

text \<open>The values that JSON documents and loosely typed Python attributes hold.\<close>

datatype json =
    JNull
  | JBool bool
  | JInt int
  | JStr string
  | JList "json list"
  | JDict "(string \<times> json) list"

text \<open>Python truthiness (\<open>if v\<close>, \<open>v or d\<close>, \<open>not v\<close>).\<close>

fun truthy :: "json \<Rightarrow> bool" where
  "truthy JNull = False"
| "truthy (JBool b) = b"
| "truthy (JInt n) = (n \<noteq> 0)"
| "truthy (JStr s) = (s \<noteq> [])"
| "truthy (JList xs) = (xs \<noteq> [])"
| "truthy (JDict kvs) = (kvs \<noteq> [])"

text \<open>\<open>a or b\<close> on strings: the first operand unless it is empty.\<close>

definition str_or :: "string \<Rightarrow> string \<Rightarrow> string" where
  "str_or a b = (if a \<noteq> [] then a else b)"

text \<open>
  \<open>str.isspace\<close> on the code points below 256: U+0009..U+000D, U+001C..U+0020, U+0085
  and U+00A0. \<open>str.strip()\<close> removes these from both ends.
\<close>

definition py_isspace :: "char \<Rightarrow> bool" where
  "py_isspace c =
     (let n = (of_char c :: nat)
      in (9 \<le> n \<and> n \<le> 13) \<or> (28 \<le> n \<and> n \<le> 32) \<or> n = 133 \<or> n = 160)"

definition lstrip :: "string \<Rightarrow> string" where
  "lstrip s = dropWhile py_isspace s"

definition rstrip :: "string \<Rightarrow> string" where
  "rstrip s = rev (dropWhile py_isspace (rev s))"

definition strip :: "string \<Rightarrow> string" where
  "strip s = rstrip (lstrip s)"

text \<open>\<open>sep.join(parts)\<close>.\<close>

fun join :: "string \<Rightarrow> string list \<Rightarrow> string" where
  "join sep [] = []"
| "join sep [x] = x"
| "join sep (x # y # ys) = x @ sep @ join sep (y # ys)"

section \<open>Messages, tools and tool calls\<close>

text \<open>\<open>AssistantPromptMessage.ToolCall\<close> with its nested \<open>ToolCallFunction\<close>.\<close>

record tool_call =
  tc_id :: string
  tc_type :: string
  tc_name :: string
  tc_arguments :: string

text \<open>
  A content part of a multi-part message: \<open>TextPromptMessageContent\<close>,
  \<open>ImagePromptMessageContent\<close> (url, inline data, detail value), or any other object,
  of which the code reads the attributes \<open>type\<close> and \<open>data\<close> (\<open>None\<close> when there is no
  \<open>data\<close> attribute).
\<close>

datatype content_part =
    TextContent string
  | ImageContent string string "string option"
  | OtherContent string "string option"

text \<open>\<open>message.content\<close>: a plain string, a list of parts, or anything else.\<close>

datatype msg_content =
    CStr string
  | CList "content_part list"
  | CNone

datatype prompt_message =
    SystemPromptMessage msg_content
  | UserPromptMessage msg_content
  | AssistantPromptMessage msg_content "tool_call list"
  | ToolPromptMessage msg_content string
  | OtherPromptMessage msg_content

fun content_of :: "prompt_message \<Rightarrow> msg_content" where
  "content_of (SystemPromptMessage c) = c"
| "content_of (UserPromptMessage c) = c"
| "content_of (AssistantPromptMessage c tcs) = c"
| "content_of (ToolPromptMessage c cid) = c"
| "content_of (OtherPromptMessage c) = c"

text \<open>\<open>PromptMessageTool\<close>; \<open>parameters\<close> is read as \<open>Any\<close>.\<close>

record prompt_message_tool =
  tool_name :: string
  tool_description :: string
  tool_parameters :: json

section \<open>Text extraction and token counting\<close>

text \<open>The texts \<open>_extract_text\<close> collects from one part (\<open>PromptMessageContentType.TEXT\<close>
  has the value \<open>text\<close>).\<close>

fun part_texts :: "content_part \<Rightarrow> string list" where
  "part_texts (TextContent d) = [d]"
| "part_texts (ImageContent u d det) = []"
| "part_texts (OtherContent ty d) =
     (case d of Some x \<Rightarrow> (if ty = ''text'' then [x] else []) | None \<Rightarrow> [])"

fun extract_text :: "prompt_message \<Rightarrow> string" where
  "extract_text m =
     (case content_of m of
        CStr s \<Rightarrow> s
      | CNone \<Rightarrow> []
      | CList items \<Rightarrow>
          join [CHR 0x0A] (filter (\<lambda>chunk. chunk \<noteq> []) (concat (map part_texts items))))"

text \<open>
  \<open>get_num_tokens\<close>. The tokenizer and the JSON serialiser are library code: \<open>ntok model
  text\<close> stands for \<open>len(encoding.encode(text))\<close> with the encoding chosen for the model,
  and \<open>dumps\<close> for \<open>json.dumps\<close>. Without tools the caller passes the empty list.
\<close>

definition tool_tokens ::
  "(string \<Rightarrow> string \<Rightarrow> int) \<Rightarrow> (json \<Rightarrow> string) \<Rightarrow> string \<Rightarrow> prompt_message_tool \<Rightarrow> int"
where
  "tool_tokens ntok dumps model tool =
     ntok model (str_or (tool_name tool) [])
     + ntok model (str_or (tool_description tool) [])
     + ntok model (dumps (if truthy (tool_parameters tool) then tool_parameters tool
                          else JDict []))"

definition get_num_tokens ::
  "(string \<Rightarrow> string \<Rightarrow> int) \<Rightarrow> (json \<Rightarrow> string) \<Rightarrow> string \<Rightarrow> prompt_message list
   \<Rightarrow> prompt_message_tool list \<Rightarrow> int"
where
  "get_num_tokens ntok dumps model prompt_messages tools =
     (let text = join [CHR 0x0A]
                   (filter (\<lambda>part. part \<noteq> []) (map extract_text prompt_messages))
      in if text = [] then 0
         else ntok model text + sum_list (map (tool_tokens ntok dumps model) tools))"

section \<open>Remote responses and usage\<close>

text \<open>The remote usage object: each count is \<open>None\<close> when the attribute is absent.\<close>

record response_usage =
  input_tokens :: "int option"
  usage_prompt_tokens :: "int option"
  output_tokens :: "int option"
  usage_completion_tokens :: "int option"

text \<open>A part of a message item of the response output.\<close>

record response_content =
  rc_type :: string
  rc_text :: string

text \<open>
  An item of \<open>response.output\<close>. \<open>ri_arguments\<close> is \<open>None\<close> when the item has no
  \<open>arguments\<close> attribute.
\<close>

record response_item =
  ri_type :: string
  ri_content :: "response_content list"
  ri_text :: string
  ri_name :: string
  ri_arguments :: "json option"
  ri_call_id :: string
  ri_id :: string

record response =
  resp_output_text :: "string option"
  resp_output :: "response_item list"
  resp_usage :: "response_usage option"
  resp_model :: "string option"
  resp_id :: string

text \<open>The two counts handed to \<open>_calc_response_usage\<close> (of the plugin SDK).\<close>

record llm_usage =
  prompt_tokens :: int
  completion_tokens :: int

text \<open>\<open>a or b or 0\<close> on optional counts.\<close>

definition count_or :: "int option \<Rightarrow> int option \<Rightarrow> int" where
  "count_or a b =
     (case a of
        Some x \<Rightarrow> (if x \<noteq> 0 then x else (case b of Some y \<Rightarrow> y | None \<Rightarrow> 0))
      | None \<Rightarrow> (case b of Some y \<Rightarrow> y | None \<Rightarrow> 0))"

definition build_usage ::
  "(string \<Rightarrow> string \<Rightarrow> int) \<Rightarrow> (json \<Rightarrow> string) \<Rightarrow> string \<Rightarrow> response option
   \<Rightarrow> prompt_message list \<Rightarrow> prompt_message \<Rightarrow> prompt_message_tool list \<Rightarrow> llm_usage"
where
  "build_usage ntok dumps model resp prompt_messages assistant_prompt_message tools =
     (let response_usage = (case resp of None \<Rightarrow> None | Some r \<Rightarrow> resp_usage r);
          p0 = (case response_usage of None \<Rightarrow> 0
                | Some u \<Rightarrow> count_or (input_tokens u) (usage_prompt_tokens u));
          c0 = (case response_usage of None \<Rightarrow> 0
                | Some u \<Rightarrow> count_or (output_tokens u) (usage_completion_tokens u));
          p = (if p0 = 0 then get_num_tokens ntok dumps model prompt_messages tools else p0);
          c = (if c0 = 0 then get_num_tokens ntok dumps model [assistant_prompt_message] []
               else c0)
      in \<lparr>prompt_tokens = p, completion_tokens = c\<rparr>)"

section \<open>The streaming handler\<close>

text \<open>
  The item carried by \<open>response.output_item.added\<close> and \<open>response.output_item.done\<close>;
  its attributes are strings.
\<close>

record stream_item =
  si_type :: string
  si_call_id :: string
  si_name :: string
  si_arguments :: string

text \<open>
  One constructor per event type the handler tests for, with the attributes it reads.
  \<open>FunctionCallArgumentsDone\<close> holds \<open>None\<close> when the \<open>arguments\<close> attribute is not a
  \<open>str\<close>. \<open>OtherEvent\<close> is any other event type.
\<close>

datatype event =
    OutputTextDelta string string
  | OutputItemAdded "stream_item option"
  | FunctionCallArgumentsDelta string string
  | FunctionCallArgumentsDone string "string option"
  | OutputItemDone "stream_item option"
  | ResponseCompleted "response option"
  | OtherEvent string

text \<open>\<open>LLMResultChunk\<close> with its \<open>LLMResultChunkDelta\<close> and the delta's message.\<close>

record chunk =
  chunk_model :: string
  chunk_prompt_messages :: "prompt_message list"
  system_fingerprint :: string
  delta_index :: nat
  delta_content :: string
  delta_tool_calls :: "tool_call list"
  finish_reason :: "string option"
  delta_usage :: "llm_usage option"

record pending_tool_call =
  p_name :: string
  p_arguments :: string

text \<open>The local variables of \<open>_handle_responses_stream_response\<close>.\<close>

record stream_state =
  full_text :: string
  index :: nat
  tool_calls :: "tool_call list"
  pending_tool_calls :: "string \<rightharpoonup> pending_tool_call"
  current_tool_call :: "string option"
  final_response :: "response option"

definition init_state :: stream_state where
  "init_state =
     \<lparr>full_text = [], index = 0, tool_calls = [], pending_tool_calls = Map.empty,
      current_tool_call = None, final_response = None\<rparr>"

definition build_tool_call :: "string \<Rightarrow> string \<Rightarrow> string \<Rightarrow> tool_call" where
  "build_tool_call function_name call_id arguments =
     \<lparr>tc_id = str_or call_id function_name, tc_type = ''function'',
      tc_name = function_name, tc_arguments = str_or arguments ''{}''\<rparr>"

text \<open>\<open>getattr(event, "item_id", "") or current_tool_call\<close>.\<close>

definition resolve_call_id :: "string \<Rightarrow> string option \<Rightarrow> string option" where
  "resolve_call_id item_id current = (if item_id \<noteq> [] then Some item_id else current)"

text \<open>The arguments of the tool call built at \<open>response.output_item.done\<close>.\<close>

definition item_done_arguments ::
  "(string \<rightharpoonup> pending_tool_call) \<Rightarrow> stream_item \<Rightarrow> string"
where
  "item_done_arguments pending item =
     (let fallback_arguments = str_or (si_arguments item) ''{}''
      in if si_call_id item \<noteq> []
         then (case pending (si_call_id item) of
                 Some p \<Rightarrow> str_or (p_arguments p) fallback_arguments
               | None \<Rightarrow> fallback_arguments)
         else fallback_arguments)"

text \<open>One iteration of the loop: the new state and the chunks yielded (none or one).\<close>

fun step ::
  "string \<Rightarrow> prompt_message list \<Rightarrow> stream_state \<Rightarrow> event \<Rightarrow> stream_state \<times> chunk list"
where
  "step model pms s (OutputTextDelta delta_text item_id) =
     (if delta_text = [] then (s, [])
      else (s\<lparr>full_text := full_text s @ delta_text, index := index s + 1\<rparr>,
            [\<lparr>chunk_model = model, chunk_prompt_messages = pms,
              system_fingerprint = item_id, delta_index = index s,
              delta_content = delta_text, delta_tool_calls = [],
              finish_reason = None, delta_usage = None\<rparr>]))"
| "step model pms s (OutputItemAdded item_opt) =
     (case item_opt of
        None \<Rightarrow> (s, [])
      | Some item \<Rightarrow>
          if si_type item = ''function_call'' \<and> si_call_id item \<noteq> []
          then (s\<lparr>pending_tool_calls :=
                     (pending_tool_calls s)(si_call_id item \<mapsto>
                        \<lparr>p_name = si_name item, p_arguments = []\<rparr>),
                   current_tool_call := Some (si_call_id item)\<rparr>, [])
          else (s, []))"
| "step model pms s (FunctionCallArgumentsDelta delta_args item_id) =
     (case resolve_call_id item_id (current_tool_call s) of
        None \<Rightarrow> (s, [])
      | Some call_id \<Rightarrow>
          (case pending_tool_calls s call_id of
             None \<Rightarrow> (s, [])
           | Some p \<Rightarrow>
               if delta_args \<noteq> [] \<and> call_id \<noteq> []
               then (s\<lparr>pending_tool_calls :=
                          (pending_tool_calls s)(call_id \<mapsto>
                             p\<lparr>p_arguments := p_arguments p @ delta_args\<rparr>)\<rparr>, [])
               else (s, [])))"
| "step model pms s (FunctionCallArgumentsDone item_id final_args) =
     (case resolve_call_id item_id (current_tool_call s) of
        None \<Rightarrow> (s, [])
      | Some call_id \<Rightarrow>
          (case pending_tool_calls s call_id of
             None \<Rightarrow> (s, [])
           | Some p \<Rightarrow>
               (case final_args of
                  None \<Rightarrow> (s, [])
                | Some a \<Rightarrow>
                    if call_id \<noteq> []
                    then (s\<lparr>pending_tool_calls :=
                               (pending_tool_calls s)(call_id \<mapsto> p\<lparr>p_arguments := a\<rparr>)\<rparr>,
                          [])
                    else (s, []))))"
| "step model pms s (OutputItemDone item_opt) =
     (case item_opt of
        None \<Rightarrow> (s, [])
      | Some item \<Rightarrow>
          if si_type item \<noteq> ''function_call'' then (s, [])
          else
            (let call_id = si_call_id item;
                 function_name = si_name item;
                 arguments = item_done_arguments (pending_tool_calls s) item;
                 tool_call = build_tool_call function_name call_id arguments;
                 (s1, out) =
                   (if function_name \<noteq> []
                    then (s\<lparr>tool_calls := tool_calls s @ [tool_call],
                            index := index s + 1\<rparr>,
                          [\<lparr>chunk_model = model, chunk_prompt_messages = pms,
                            system_fingerprint = call_id, delta_index = index s,
                            delta_content = [], delta_tool_calls = [tool_call],
                            finish_reason = None, delta_usage = None\<rparr>])
                    else (s, []));
                 s2 = s1\<lparr>pending_tool_calls := (pending_tool_calls s1)(call_id := None)\<rparr>;
                 s3 = (if Some call_id = current_tool_call s2
                       then s2\<lparr>current_tool_call := None\<rparr> else s2)
             in (s3, out)))"
| "step model pms s (ResponseCompleted r) = (s\<lparr>final_response := r\<rparr>, [])"
| "step model pms s (OtherEvent ty) = (s, [])"

text \<open>The \<open>for event in response\<close> loop over a finite stream.\<close>

fun run_events ::
  "string \<Rightarrow> prompt_message list \<Rightarrow> stream_state \<Rightarrow> event list \<Rightarrow> stream_state \<times> chunk list"
where
  "run_events model pms s [] = (s, [])"
| "run_events model pms s (e # es) =
     (let (s1, out1) = step model pms s e;
          (s2, out2) = run_events model pms s1 es
      in (s2, out1 @ out2))"

definition finish_reason_of :: "stream_state \<Rightarrow> string" where
  "finish_reason_of s =
     (if tool_calls s \<noteq> [] \<and> strip (full_text s) = [] then ''tool_calls'' else ''stop'')"

text \<open>The chunk yielded after the loop.\<close>

definition final_chunk ::
  "(string \<Rightarrow> string \<Rightarrow> int) \<Rightarrow> (json \<Rightarrow> string) \<Rightarrow> string \<Rightarrow> prompt_message list
   \<Rightarrow> prompt_message_tool list \<Rightarrow> stream_state \<Rightarrow> chunk"
where
  "final_chunk ntok dumps model pms tools s =
     \<lparr>chunk_model = model, chunk_prompt_messages = pms,
      system_fingerprint =
        (case final_response s of None \<Rightarrow> [] | Some r \<Rightarrow> resp_id r),
      delta_index = index s, delta_content = [], delta_tool_calls = [],
      finish_reason = Some (finish_reason_of s),
      delta_usage =
        Some (build_usage ntok dumps model (final_response s) pms
                (AssistantPromptMessage (CStr (full_text s)) (tool_calls s)) tools)\<rparr>"

text \<open>\<open>_handle_responses_stream_response\<close>: every chunk the generator yields, in order.\<close>

definition handle_responses_stream_response ::
  "(string \<Rightarrow> string \<Rightarrow> int) \<Rightarrow> (json \<Rightarrow> string) \<Rightarrow> string \<Rightarrow> event list
   \<Rightarrow> prompt_message list \<Rightarrow> prompt_message_tool list \<Rightarrow> chunk list"
where
  "handle_responses_stream_response ntok dumps model events pms tools =
     (let (s, out) = run_events model pms init_state events
      in out @ [final_chunk ntok dumps model pms tools s])"

section \<open>The non-streaming handler\<close>

text \<open>The texts \<open>_extract_response_text\<close> collects from one output item.\<close>

definition item_texts :: "response_item \<Rightarrow> string list" where
  "item_texts item =
     (if ri_type item = ''message''
      then map rc_text
             (filter (\<lambda>c. rc_type c \<in> set [''output_text'', ''text'', ''input_text'']
                          \<and> rc_text c \<noteq> [])
                (ri_content item))
      else if ri_type item \<in> set [''output_text'', ''text'']
      then (if ri_text item \<noteq> [] then [ri_text item] else [])
      else [])"

definition extract_response_text :: "response \<Rightarrow> string" where
  "extract_response_text r = concat (concat (map item_texts (resp_output r)))"

text \<open>The tool calls \<open>_extract_response_tool_calls\<close> collects from one output item.\<close>

definition item_tool_calls :: "(json \<Rightarrow> string) \<Rightarrow> response_item \<Rightarrow> tool_call list" where
  "item_tool_calls dumps item =
     (if ri_type item \<noteq> ''function_call'' then []
      else if ri_name item = [] then []
      else
        (let arguments =
               (case ri_arguments item of
                  None \<Rightarrow> ''{}''
                | Some (JDict kvs) \<Rightarrow> dumps (JDict kvs)
                | Some (JStr a) \<Rightarrow> a
                | Some _ \<Rightarrow> ''{}'');
             call_id = str_or (ri_call_id item) (ri_id item)
         in [build_tool_call (ri_name item) call_id arguments]))"

definition extract_response_tool_calls :: "(json \<Rightarrow> string) \<Rightarrow> response \<Rightarrow> tool_call list"
where
  "extract_response_tool_calls dumps r = concat (map (item_tool_calls dumps) (resp_output r))"

text \<open>\<open>LLMResult\<close>.\<close>

record llm_result =
  result_model :: string
  result_prompt_messages :: "prompt_message list"
  result_message :: prompt_message
  result_usage :: llm_usage
  result_system_fingerprint :: string

definition handle_responses_response ::
  "(string \<Rightarrow> string \<Rightarrow> int) \<Rightarrow> (json \<Rightarrow> string) \<Rightarrow> string \<Rightarrow> response
   \<Rightarrow> prompt_message list \<Rightarrow> prompt_message_tool list \<Rightarrow> llm_result"
where
  "handle_responses_response ntok dumps model r pms tools =
     (let content =
            (case resp_output_text r of
               Some t \<Rightarrow> (if t \<noteq> [] then t else extract_response_text r)
             | None \<Rightarrow> extract_response_text r);
          assistant_prompt_message =
            AssistantPromptMessage (CStr content) (extract_response_tool_calls dumps r)
      in \<lparr>result_model = (case resp_model r of Some m \<Rightarrow> m | None \<Rightarrow> model),
          result_prompt_messages = pms,
          result_message = assistant_prompt_message,
          result_usage =
            build_usage ntok dumps model (Some r) pms assistant_prompt_message tools,
          result_system_fingerprint = resp_id r\<rparr>)"

section \<open>Encoding messages and tools\<close>

text \<open>The wire dictionaries are \<open>JDict\<close> association lists in insertion order.\<close>

fun user_part :: "content_part \<Rightarrow> json list" where
  "user_part (TextContent d) = [JDict [(''type'', JStr ''input_text''), (''text'', JStr d)]]"
| "user_part (ImageContent url d detail) =
     [JDict ([(''type'', JStr ''input_image''), (''image_url'', JStr (str_or url d))]
             @ (case detail of Some v \<Rightarrow> [(''detail'', JStr v)] | None \<Rightarrow> []))]"
| "user_part (OtherContent ty d) = []"

definition tool_call_entry :: "tool_call \<Rightarrow> json" where
  "tool_call_entry tc =
     JDict [(''type'', JStr ''function_call''),
            (''call_id'', JStr (str_or (tc_id tc) (tc_name tc))),
            (''name'', JStr (tc_name tc)),
            (''arguments'', JStr (str_or (tc_arguments tc) ''{}''))]"

text \<open>The entries one message contributes to \<open>input_messages\<close>.\<close>

fun message_entries :: "prompt_message \<Rightarrow> json list" where
  "message_entries (SystemPromptMessage c) =
     (let content = extract_text (SystemPromptMessage c)
      in if content \<noteq> [] then [JDict [(''role'', JStr ''developer''), (''content'', JStr content)]]
         else [])"
| "message_entries (UserPromptMessage c) =
     (case c of
        CStr s \<Rightarrow> [JDict [(''role'', JStr ''user''), (''content'', JStr s)]]
      | CList items \<Rightarrow>
          (let content_parts = concat (map user_part items)
           in if content_parts \<noteq> []
              then [JDict [(''role'', JStr ''user''), (''content'', JList content_parts)]]
              else [])
      | CNone \<Rightarrow> [])"
| "message_entries (AssistantPromptMessage c tcs) =
     (let assistant_text = extract_text (AssistantPromptMessage c tcs)
      in (if assistant_text \<noteq> []
          then [JDict [(''role'', JStr ''assistant''), (''content'', JStr assistant_text)]]
          else [])
         @ map tool_call_entry tcs)"
| "message_entries (ToolPromptMessage c call_id) =
     (let tool_output = extract_text (ToolPromptMessage c call_id)
      in [JDict [(''type'', JStr ''function_call_output''),
                 (''call_id'', JStr call_id),
                 (''output'', JStr (str_or tool_output []))]])"
| "message_entries (OtherPromptMessage c) =
     (let text = extract_text (OtherPromptMessage c)
      in if text \<noteq> [] then [JDict [(''role'', JStr ''user''), (''content'', JStr text)]]
         else [])"

definition convert_prompt_messages_to_responses_input :: "prompt_message list \<Rightarrow> json list"
where
  "convert_prompt_messages_to_responses_input prompt_messages =
     concat (map message_entries prompt_messages)"

definition empty_schema :: json where
  "empty_schema = JDict [(''type'', JStr ''object''), (''properties'', JDict [])]"

text \<open>
  \<open>_convert_tool_to_response_tool\<close>. \<open>loads\<close> stands for \<open>json.loads\<close>: \<open>None\<close> when it
  raises \<open>JSONDecodeError\<close>, the parsed value otherwise.
\<close>

definition convert_tool_to_response_tool ::
  "(string \<Rightarrow> json option) \<Rightarrow> prompt_message_tool \<Rightarrow> json"
where
  "convert_tool_to_response_tool loads tool =
     (let parameters =
            (case tool_parameters tool of
               JStr p \<Rightarrow> (case loads p of Some v \<Rightarrow> v | None \<Rightarrow> empty_schema)
             | JDict kvs \<Rightarrow> JDict kvs
             | _ \<Rightarrow> empty_schema)
      in JDict [(''type'', JStr ''function''),
                (''name'', JStr (tool_name tool)),
                (''description'', JStr (str_or (tool_description tool) [])),
                (''parameters'', parameters)])"

section \<open>Performance tiers\<close>

text \<open>\<open>str.lower\<close> on the code points below 256.\<close>

definition py_lower_char :: "char \<Rightarrow> char" where
  "py_lower_char c =
     (let n = (of_char c :: nat)
      in if (65 \<le> n \<and> n \<le> 90) \<or> (192 \<le> n \<and> n \<le> 222 \<and> n \<noteq> 215)
         then char_of (n + 32) else c)"

definition lower :: "string \<Rightarrow> string" where
  "lower s = map py_lower_char s"










section \<open>Error mapping\<close>

text \<open>
  The exception classes of the \<open>openai\<close> library, with \<open>OtherException\<close> for every
  exception class outside it. \<open>bases\<close> lists a class with its superclasses inside the
  library, as the library declares them.
\<close>

datatype exc_class =
    OpenAIError
  | APIError
  | APIResponseValidationError
  | APIStatusError
  | APIConnectionError
  | APITimeoutError
  | BadRequestError
  | AuthenticationError
  | PermissionDeniedError
  | NotFoundError
  | ConflictError
  | UnprocessableEntityError
  | RateLimitError
  | InternalServerError
  | OtherException

fun bases :: "exc_class \<Rightarrow> exc_class list" where
  "bases OpenAIError = [OpenAIError]"
| "bases APIError = [APIError, OpenAIError]"
| "bases APIResponseValidationError = [APIResponseValidationError, APIError, OpenAIError]"
| "bases APIStatusError = [APIStatusError, APIError, OpenAIError]"
| "bases APIConnectionError = [APIConnectionError, APIError, OpenAIError]"
| "bases APITimeoutError = [APITimeoutError, APIConnectionError, APIError, OpenAIError]"
| "bases OtherException = [OtherException]"
| "bases c = [c, APIStatusError, APIError, OpenAIError]"

definition isinstance :: "exc_class \<Rightarrow> exc_class list \<Rightarrow> bool" where
  "isinstance ex classes = list_ex (\<lambda>c. c \<in> set (bases ex)) classes"

datatype invoke_error =
    InvokeConnectionError
  | InvokeServerUnavailableError
  | InvokeRateLimitError
  | InvokeAuthorizationError
  | InvokeBadRequestError
  | InvokeError

text \<open>\<open>_invoke_error_mapping\<close>, in the order of the dictionary.\<close>

definition invoke_error_mapping :: "(invoke_error \<times> exc_class list) list" where
  "invoke_error_mapping =
     [(InvokeConnectionError, [APIConnectionError, APITimeoutError]),
      (InvokeServerUnavailableError, [InternalServerError]),
      (InvokeRateLimitError, [RateLimitError]),
      (InvokeAuthorizationError, [AuthenticationError, PermissionDeniedError]),
      (InvokeBadRequestError,
         [BadRequestError, NotFoundError, UnprocessableEntityError, APIError])]"

text \<open>The loop over the table; \<open>InvokeError\<close> when it ends without a match.\<close>

fun map_error :: "(invoke_error \<times> exc_class list) list \<Rightarrow> exc_class \<Rightarrow> invoke_error" where
  "map_error [] ex = InvokeError"
| "map_error ((mapped_error, openai_errors) # rest) ex =
     (if isinstance ex openai_errors then mapped_error else map_error rest ex)"

text \<open>
  \<open>_with_invoke_error_mapping\<close>. The outcome of \<open>fn()\<close> is \<open>Inr\<close> its value or \<open>Inl\<close>
  the class of the \<open>Exception\<close> it raised with \<open>str(ex)\<close>; the wrapper returns the value
  or raises the mapped error with the same text.
\<close>

definition with_invoke_error_mapping ::
  "(exc_class \<times> string) + 'a \<Rightarrow> (invoke_error \<times> string) + 'a"
where
  "with_invoke_error_mapping outcome =
     (case outcome of
        Inr v \<Rightarrow> Inr v
      | Inl (ex, msg) \<Rightarrow> Inl (map_error invoke_error_mapping ex, msg))"

text \<open>
  The classification as the specification words it: one row per fault category, the
  generic API fault standing for every other error of the library's API.
\<close>

fun classify_spec :: "exc_class \<Rightarrow> invoke_error" where
  "classify_spec APIConnectionError = InvokeConnectionError"
| "classify_spec APITimeoutError = InvokeConnectionError"
| "classify_spec InternalServerError = InvokeServerUnavailableError"
| "classify_spec RateLimitError = InvokeRateLimitError"
| "classify_spec AuthenticationError = InvokeAuthorizationError"
| "classify_spec PermissionDeniedError = InvokeAuthorizationError"
| "classify_spec BadRequestError = InvokeBadRequestError"
| "classify_spec NotFoundError = InvokeBadRequestError"
| "classify_spec UnprocessableEntityError = InvokeBadRequestError"
| "classify_spec APIError = InvokeBadRequestError"
| "classify_spec APIStatusError = InvokeBadRequestError"
| "classify_spec APIResponseValidationError = InvokeBadRequestError"
| "classify_spec ConflictError = InvokeBadRequestError"
| "classify_spec OpenAIError = InvokeError"
| "classify_spec OtherException = InvokeError"

section \<open>Notions of the specification\<close>

text \<open>
  The effective arguments of a finalized tool call as the specification words them:
  the buffered arguments if the call id is known, else the item's own arguments field,
  else \<open>{}\<close>.
\<close>

definition effective_arguments_spec ::
  "(string \<rightharpoonup> pending_tool_call) \<Rightarrow> stream_item \<Rightarrow> string"
where
  "effective_arguments_spec pending item =
     (case pending (si_call_id item) of
        Some p \<Rightarrow> p_arguments p
      | None \<Rightarrow> (if si_arguments item \<noteq> [] then si_arguments item else ''{}''))"

text \<open>A call id is known when it is not empty and the pending map has an entry for it;
  the buffered arguments are those of its entry.\<close>

definition known :: "(string \<rightharpoonup> pending_tool_call) \<Rightarrow> string \<Rightarrow> bool" where
  "known pending cid = (cid \<noteq> [] \<and> pending cid \<noteq> None)"

definition buffered_arguments :: "(string \<rightharpoonup> pending_tool_call) \<Rightarrow> string \<Rightarrow> string"
where
  "buffered_arguments pending cid =
     (case pending cid of Some p \<Rightarrow> p_arguments p | None \<Rightarrow> [])"

text \<open>An \<open>output_item.done\<close> event of a function-call item with the given call id.\<close>

fun item_done_for :: "string \<Rightarrow> event \<Rightarrow> bool" where
  "item_done_for cid (OutputItemDone (Some item)) =
     (si_type item = ''function_call'' \<and> si_call_id item = cid)"
| "item_done_for cid e = False"

text \<open>An \<open>output_item.done\<close> event that finalizes a tool call: a function-call item
  with a function name.\<close>

fun finalizing :: "event \<Rightarrow> bool" where
  "finalizing (OutputItemDone (Some item)) =
     (si_type item = ''function_call'' \<and> si_name item \<noteq> [])"
| "finalizing e = False"


text \<open>
  The count the remote side reports under either of its two field names: \<open>None\<close> when
  it is missing or zero under both.
\<close>

definition reported_count :: "int option \<Rightarrow> int option \<Rightarrow> int option" where
  "reported_count a b =
     (if a \<noteq> None \<and> a \<noteq> Some 0 then a
      else if b \<noteq> None \<and> b \<noteq> Some 0 then b
      else None)"

definition remote_usage :: "response option \<Rightarrow> response_usage option" where
  "remote_usage resp = (case resp of None \<Rightarrow> None | Some r \<Rightarrow> resp_usage r)"

text \<open>The prompt-token and completion-token counts of the remote usage object, when
  the response carries one.\<close>

definition reported_prompt_tokens :: "response option \<Rightarrow> int option" where
  "reported_prompt_tokens resp =
     (case remote_usage resp of
        None \<Rightarrow> None
      | Some u \<Rightarrow> reported_count (input_tokens u) (usage_prompt_tokens u))"

definition reported_completion_tokens :: "response option \<Rightarrow> int option" where
  "reported_completion_tokens resp =
     (case remote_usage resp of
        None \<Rightarrow> None
      | Some u \<Rightarrow> reported_count (output_tokens u) (usage_completion_tokens u))"

text \<open>Overwriting the buffered arguments of a pending call, when the call is pending.\<close>

definition set_buffered :: "string \<Rightarrow> string \<Rightarrow> stream_state \<Rightarrow> stream_state" where
  "set_buffered cid a s =
     (case pending_tool_calls s cid of
        None \<Rightarrow> s
      | Some p \<Rightarrow> s\<lparr>pending_tool_calls := (pending_tool_calls s)(cid \<mapsto> p\<lparr>p_arguments := a\<rparr>)\<rparr>)"

text \<open>Two states of the handler that agree on everything but the entry the pending map
  holds for one call id, which both have or both lack.\<close>

definition same_but :: "string \<Rightarrow> stream_state \<Rightarrow> stream_state \<Rightarrow> bool" where
  "same_but cid s t =
     (full_text s = full_text t \<and> index s = index t \<and> tool_calls s = tool_calls t
      \<and> current_tool_call s = current_tool_call t \<and> final_response s = final_response t
      \<and> (\<forall>k. k \<noteq> cid \<longrightarrow> pending_tool_calls s k = pending_tool_calls t k)
      \<and> (pending_tool_calls s cid = None \<longleftrightarrow> pending_tool_calls t cid = None))"

text \<open>The chunks the handler yields when the loop starts in a given state: the rest of
  a stream.\<close>

definition stream_from ::
  "(string \<Rightarrow> string \<Rightarrow> int) \<Rightarrow> (json \<Rightarrow> string) \<Rightarrow> string \<Rightarrow> prompt_message list
   \<Rightarrow> prompt_message_tool list \<Rightarrow> stream_state \<Rightarrow> event list \<Rightarrow> chunk list"
where
  "stream_from ntok dumps model pms tools s events =
     (let (s', out) = run_events model pms s events
      in out @ [final_chunk ntok dumps model pms tools s'])"











section \<open>The streaming handler: chunk order and the terminal chunk\<close>

lemma step_out:
  "step model pms s e = (s', out) \<Longrightarrow>
     map delta_index out = [index s ..< index s'] \<and> index s' = index s + length out
     \<and> map finish_reason out = replicate (length out) None"
  by (cases e) (auto simp: Let_def split: if_splits option.splits prod.splits)

lemma run_events_out:
  "run_events model pms s es = (s', out) \<Longrightarrow>
     map delta_index out = [index s ..< index s'] \<and> index s' = index s + length out
     \<and> map finish_reason out = replicate (length out) None"
proof (induction es arbitrary: s s' out)
  case Nil
  then show ?case by simp
next
  case (Cons e es)
  obtain s1 out1 where st: "step model pms s e = (s1, out1)"
    by (cases "step model pms s e")
  obtain s2 out2 where rn: "run_events model pms s1 es = (s2, out2)"
    by (cases "run_events model pms s1 es")
  from Cons.prems st rn have eq: "s' = s2" "out = out1 @ out2" by simp_all
  note a = step_out[OF st] and b = Cons.IH[OF rn]
  have "[index s ..< index s2] = [index s ..< index s1] @ [index s1 ..< index s2]"
    using a b by (metis le_add1 upt_add_eq_append)
  then show ?case using a b eq by (simp add: replicate_add)
qed

lemma filter_finish_none:
  "map finish_reason out = replicate (length out) None \<Longrightarrow>
     filter (\<lambda>c. finish_reason c \<noteq> None) out = []"
proof (induction out)
  case Nil
  then show ?case by simp
next
  case (Cons c cs)
  then show ?case by simp
qed

lemma run_events_append:
  "run_events model pms s (xs @ ys) =
     (let (s1, out1) = run_events model pms s xs;
          (s2, out2) = run_events model pms s1 ys
      in (s2, out1 @ out2))"
  by (induction xs arbitrary: s) (simp_all add: Let_def split: prod.splits)

text \<open>
  C1. The chunks of every stream carry the indices 0, 1, 2, ... in order; exactly one
  chunk carries a finish reason and it is the last one; the last chunk has empty delta
  text and carries the usage; and on the stream without events the terminal chunk is
  the only chunk, at index 0.
\<close>

theorem stream_chunks_indexed_and_terminated:
  fixes ntok dumps model events pms tools
  defines "cs \<equiv> handle_responses_stream_response ntok dumps model events pms tools"
  defines "cs0 \<equiv> handle_responses_stream_response ntok dumps model [] pms tools"
  shows "map delta_index cs = [0 ..< length cs]
    \<and> cs \<noteq> []
    \<and> filter (\<lambda>c. finish_reason c \<noteq> None) cs = [last cs]
    \<and> delta_content (last cs) = []
    \<and> delta_usage (last cs) \<noteq> None
    \<and> length cs0 = 1
    \<and> map delta_index cs0 = [0]
    \<and> map delta_content cs0 = [[]]
    \<and> map finish_reason cs0 = [Some ''stop'']
    \<and> delta_usage (last cs0) \<noteq> None"
proof -
  obtain s out where rn: "run_events model pms init_state events = (s, out)"
    by (cases "run_events model pms init_state events")
  let ?fc = "final_chunk ntok dumps model pms tools s"
  have cs: "cs = out @ [?fc]"
    by (simp add: cs_def handle_responses_stream_response_def rn)
  have i0: "index init_state = 0" by (simp add: init_state_def)
  from run_events_out[OF rn] i0 have
    idx: "map delta_index out = [0 ..< length out]" and
    len: "index s = length out" and
    fin: "map finish_reason out = replicate (length out) None"
    by simp_all
  have fc: "delta_index ?fc = length out" "finish_reason ?fc \<noteq> None"
    "delta_content ?fc = []" "delta_usage ?fc \<noteq> None"
    by (simp_all add: final_chunk_def len)
  have a: "map delta_index cs = [0 ..< length cs]"
    using idx fc(1) by (simp add: cs)
  have b: "filter (\<lambda>c. finish_reason c \<noteq> None) cs = [last cs]"
    using filter_finish_none[OF fin] fc(2) by (simp add: cs)
  have c0: "cs0 = [final_chunk ntok dumps model pms tools init_state]"
    by (simp add: cs0_def handle_responses_stream_response_def)
  have d: "map finish_reason cs0 = [Some ''stop'']" "map delta_index cs0 = [0]"
    "map delta_content cs0 = [[]]" "delta_usage (last cs0) \<noteq> None"
    by (simp_all add: c0 final_chunk_def finish_reason_of_def init_state_def)
  show ?thesis
    using a b fc(3,4) d by (simp add: cs c0)
qed

section \<open>The finish reason\<close>

lemma strip_empty_iff: "strip s = [] \<longleftrightarrow> list_all py_isspace s"
proof -
  have "dropWhile py_isspace s = [] \<longleftrightarrow> list_all py_isspace s"
    by (simp add: dropWhile_eq_Nil_conv list_all_iff)
  moreover have "dropWhile py_isspace s = [] \<Longrightarrow> strip s = []"
    by (auto simp: strip_def lstrip_def rstrip_def dest: set_dropWhileD)
  moreover have "strip s = [] \<Longrightarrow> dropWhile py_isspace s = []"
  proof -
    assume a: "strip s = []"
    let ?t = "dropWhile py_isspace s"
    from a have "dropWhile py_isspace (rev ?t) = []"
      by (simp add: strip_def lstrip_def rstrip_def)
    then have all: "\<forall>c\<in>set ?t. py_isspace c"
      by (simp add: dropWhile_eq_Nil_conv)
    show "?t = []"
    proof (cases ?t)
      case Nil
      then show ?thesis .
    next
      case (Cons c cs)
      then have "\<not> py_isspace c" using hd_dropWhile[of py_isspace s] by auto
      with all Cons show ?thesis by auto
    qed
  qed
  ultimately show ?thesis by blast
qed

lemma step_acc:
  "step model pms s e = (s', out) \<Longrightarrow>
     full_text s' = full_text s @ concat (map delta_content out)
     \<and> tool_calls s' = tool_calls s @ concat (map delta_tool_calls out)"
  by (cases e) (auto simp: Let_def split: if_splits option.splits prod.splits)

lemma run_events_acc:
  "run_events model pms s es = (s', out) \<Longrightarrow>
     full_text s' = full_text s @ concat (map delta_content out)
     \<and> tool_calls s' = tool_calls s @ concat (map delta_tool_calls out)"
proof (induction es arbitrary: s s' out)
  case Nil
  then show ?case by simp
next
  case (Cons e es)
  obtain s1 out1 where st: "step model pms s e = (s1, out1)"
    by (cases "step model pms s e")
  obtain s2 out2 where rn: "run_events model pms s1 es = (s2, out2)"
    by (cases "run_events model pms s1 es")
  from Cons.prems st rn have eq: "s' = s2" "out = out1 @ out2" by simp_all
  show ?case using step_acc[OF st] Cons.IH[OF rn] eq by simp
qed

text \<open>
  C4. The finish reason of the terminal chunk is \<open>tool_calls\<close> exactly when at least
  one tool call was finalized (a chunk carried one) and the accumulated text (the delta
  texts of the chunks, in order) is empty or whitespace only; otherwise it is \<open>stop\<close>.
\<close>

theorem finish_reason_rule:
  fixes ntok dumps model events pms tools
  defines "cs \<equiv> handle_responses_stream_response ntok dumps model events pms tools"
  shows "finish_reason (last cs) =
     Some (if concat (map delta_tool_calls cs) \<noteq> []
              \<and> list_all py_isspace (concat (map delta_content cs))
           then ''tool_calls'' else ''stop'')"
proof -
  obtain s out where rn: "run_events model pms init_state events = (s, out)"
    by (cases "run_events model pms init_state events")
  let ?fc = "final_chunk ntok dumps model pms tools s"
  have cs: "cs = out @ [?fc]"
    by (simp add: cs_def handle_responses_stream_response_def rn)
  from run_events_acc[OF rn] have
    ft: "full_text s = concat (map delta_content out)" and
    tc: "tool_calls s = concat (map delta_tool_calls out)"
    by (simp_all add: init_state_def)
  have fc: "delta_content ?fc = []" "delta_tool_calls ?fc = []"
    "finish_reason ?fc = Some (finish_reason_of s)"
    by (simp_all add: final_chunk_def)
  show ?thesis
    using fc ft tc by (simp add: cs finish_reason_of_def strip_empty_iff)
qed

section \<open>Arguments of a finalized tool call\<close>

text \<open>
  C3, as stated, fails: a call id known to the pending map with an empty buffer does not
  give the buffered (empty) arguments; the item's own arguments field is used.
\<close>

theorem effective_arguments_counterexample:
  "map tc_arguments (tool_calls (fst (run_events ''m'' [] init_state
      [OutputItemAdded (Some \<lparr>si_type = ''function_call'', si_call_id = ''c1'',
                              si_name = ''f'', si_arguments = []\<rparr>),
       OutputItemDone (Some \<lparr>si_type = ''function_call'', si_call_id = ''c1'',
                             si_name = ''f'', si_arguments = ''{\"x\":1}''\<rparr>)])))
     = [''{\"x\":1}'']
   \<and> pending_tool_calls (fst (run_events ''m'' [] init_state
        [OutputItemAdded (Some \<lparr>si_type = ''function_call'', si_call_id = ''c1'',
                                si_name = ''f'', si_arguments = []\<rparr>)])) ''c1''
       = Some \<lparr>p_name = ''f'', p_arguments = []\<rparr>
   \<and> effective_arguments_spec
        (pending_tool_calls (fst (run_events ''m'' [] init_state
           [OutputItemAdded (Some \<lparr>si_type = ''function_call'', si_call_id = ''c1'',
                                   si_name = ''f'', si_arguments = []\<rparr>)])))
        \<lparr>si_type = ''function_call'', si_call_id = ''c1'', si_name = ''f'',
         si_arguments = ''{\"x\":1}''\<rparr>
       = []"
  by (simp add: init_state_def item_done_arguments_def build_tool_call_def str_or_def
      effective_arguments_spec_def Let_def)

text \<open>
  C3, amended. At \<open>response.output_item.done\<close> for a function-call item with a function
  name, one tool call is finalized; its arguments are the buffered arguments when the
  item's call id is known and the buffer is not empty, else the item's own arguments
  field when that is not empty, else \<open>{}\<close>.
\<close>

theorem item_done_effective_arguments:
  assumes "si_type item = ''function_call''" and "si_name item \<noteq> []"
  shows "map delta_tool_calls (snd (step model pms s (OutputItemDone (Some item)))) =
     [[\<lparr>tc_id = (if si_call_id item \<noteq> [] then si_call_id item else si_name item),
        tc_type = ''function'',
        tc_name = si_name item,
        tc_arguments =
          (if known (pending_tool_calls s) (si_call_id item)
              \<and> buffered_arguments (pending_tool_calls s) (si_call_id item) \<noteq> []
           then buffered_arguments (pending_tool_calls s) (si_call_id item)
           else if si_arguments item \<noteq> [] then si_arguments item
           else ''{}'')\<rparr>]]"
  using assms
  by (simp add: Let_def item_done_arguments_def build_tool_call_def str_or_def known_def
      buffered_arguments_def split: option.splits)

theorem item_done_effective_arguments_witness:
  "map delta_tool_calls (snd (step ''m'' [] 
      (init_state\<lparr>pending_tool_calls := [''c1'' \<mapsto> \<lparr>p_name = ''f'', p_arguments = ''{\"a\":1}''\<rparr>]\<rparr>)
      (OutputItemDone (Some \<lparr>si_type = ''function_call'', si_call_id = ''c1'',
                             si_name = ''f'', si_arguments = ''{\"x\":1}''\<rparr>)))) =
     [[\<lparr>tc_id = ''c1'', tc_type = ''function'', tc_name = ''f'', tc_arguments = ''{\"a\":1}''\<rparr>]]"
  using item_done_effective_arguments[of "\<lparr>si_type = ''function_call'', si_call_id = ''c1'',
       si_name = ''f'', si_arguments = ''{\"x\":1}''\<rparr>" "''m''" "[]"
       "init_state\<lparr>pending_tool_calls := [''c1'' \<mapsto> \<lparr>p_name = ''f'', p_arguments = ''{\"a\":1}''\<rparr>]\<rparr>"]
  by (simp add: known_def buffered_arguments_def)

section \<open>The arguments-done event\<close>








section \<open>Error mapping: the classification\<close>

lemma map_error_classify: "map_error invoke_error_mapping ex = classify_spec ex"
  by (cases ex) (simp_all add: invoke_error_mapping_def isinstance_def)

text \<open>
  C7. Whatever exception the wrapped call raises, the wrapper raises one error of the
  closed taxonomy with the same text, chosen by the table: connection failure and
  timeout give Connection, an internal server fault ServerUnavailable, rate limiting
  RateLimit, authentication and permission faults Authorization, malformed request,
  not-found, unprocessable entity and every other API fault BadRequest, and an
  exception outside the table the generic InvokeError; a value is returned unchanged.
  A rate-limit fault is an API fault too, and is classified RateLimit.
\<close>

theorem invoke_error_classification:
  "with_invoke_error_mapping (Inl (ex, msg)) = (Inl (classify_spec ex, msg) :: (invoke_error \<times> string) + 'a)
   \<and> with_invoke_error_mapping (Inr v) = (Inr v :: (invoke_error \<times> string) + 'a)
   \<and> isinstance RateLimitError [APIError]
   \<and> map_error invoke_error_mapping RateLimitError = InvokeRateLimitError"
  by (simp add: with_invoke_error_mapping_def map_error_classify isinstance_def)

section \<open>Usage resolution\<close>

lemma count_or_reported:
  "count_or a b = (case reported_count a b of Some n \<Rightarrow> n | None \<Rightarrow> 0)"
  "reported_count a b \<noteq> Some 0"
  by (auto simp: count_or_def reported_count_def split: option.splits)

text \<open>
  C8. The prompt-token count of the usage is the count the remote side reports (under
  \<open>input_tokens\<close>, else \<open>prompt_tokens\<close>) when the usage object is present and the
  count is not zero, and otherwise the local token count of the prompt messages with
  the tools; independently, the completion-token count is the reported one (under
  \<open>output_tokens\<close>, else \<open>completion_tokens\<close>) or else the local token count of the
  assembled assistant message.
\<close>

theorem usage_prefers_remote_counts:
  "build_usage ntok dumps model resp pms assistant_message tools =
     \<lparr>prompt_tokens =
        (case reported_prompt_tokens resp of
           Some n \<Rightarrow> n
         | None \<Rightarrow> get_num_tokens ntok dumps model pms tools),
      completion_tokens =
        (case reported_completion_tokens resp of
           Some n \<Rightarrow> n
         | None \<Rightarrow> get_num_tokens ntok dumps model [assistant_message] [])\<rparr>"
proof -
  have p: "(if count_or a b = 0 then x else count_or a b) =
      (case reported_count a b of Some n \<Rightarrow> n | None \<Rightarrow> x)" for a b and x :: int
    using count_or_reported[of a b] by (cases "reported_count a b") auto
  show ?thesis
  proof (cases "remote_usage resp")
    case None
    then show ?thesis
      by (simp add: build_usage_def reported_prompt_tokens_def
          reported_completion_tokens_def remote_usage_def)
  next
    case (Some u)
    then have "build_usage ntok dumps model resp pms assistant_message tools =
       \<lparr>prompt_tokens =
          (if count_or (input_tokens u) (usage_prompt_tokens u) = 0
           then get_num_tokens ntok dumps model pms tools
           else count_or (input_tokens u) (usage_prompt_tokens u)),
        completion_tokens =
          (if count_or (output_tokens u) (usage_completion_tokens u) = 0
           then get_num_tokens ntok dumps model [assistant_message] []
           else count_or (output_tokens u) (usage_completion_tokens u))\<rparr>"
      by (simp add: build_usage_def remote_usage_def)
    then show ?thesis
      using Some
      by (simp only: p reported_prompt_tokens_def reported_completion_tokens_def
          option.case)
  qed
qed

section \<open>Round trip of a text message\<close>

text \<open>
  C9. A single user message with plain string content \<open>s\<close> is encoded as the one entry
  with role \<open>user\<close> and content \<open>s\<close>; a non-streaming response without the full-text
  field whose output is one message item with one text-like part holding \<open>s\<close> is
  decoded to a turn whose assistant message has content \<open>s\<close> and no tool calls.
\<close>

theorem user_text_round_trip:
  assumes "ty \<in> set [''output_text'', ''text'', ''input_text'']"
  shows "convert_prompt_messages_to_responses_input [UserPromptMessage (CStr s)] =
       [JDict [(''role'', JStr ''user''), (''content'', JStr s)]]
     \<and> result_message
         (handle_responses_response ntok dumps model
            \<lparr>resp_output_text = None,
             resp_output =
               [\<lparr>ri_type = ''message'', ri_content = [\<lparr>rc_type = ty, rc_text = s\<rparr>],
                 ri_text = it, ri_name = nm, ri_arguments = args, ri_call_id = cid,
                 ri_id = iid\<rparr>],
             resp_usage = u, resp_model = m, resp_id = rid\<rparr>
            pms tools)
       = AssistantPromptMessage (CStr s) []"
  using assms
  by (auto simp: convert_prompt_messages_to_responses_input_def handle_responses_response_def
      extract_response_text_def extract_response_tool_calls_def item_texts_def
      item_tool_calls_def Let_def)

theorem user_text_round_trip_witness:
  "convert_prompt_messages_to_responses_input [UserPromptMessage (CStr ''hello'')] =
       [JDict [(''role'', JStr ''user''), (''content'', JStr ''hello'')]]
     \<and> result_message
         (handle_responses_response (\<lambda>m t. int (length t)) (\<lambda>j. ''{}'') ''gpt-5''
            \<lparr>resp_output_text = None,
             resp_output =
               [\<lparr>ri_type = ''message'',
                 ri_content = [\<lparr>rc_type = ''output_text'', rc_text = ''hello''\<rparr>],
                 ri_text = [], ri_name = [], ri_arguments = None, ri_call_id = [],
                 ri_id = ''msg_1''\<rparr>],
             resp_usage = None, resp_model = Some ''gpt-5'', resp_id = ''resp_1''\<rparr>
            [UserPromptMessage (CStr ''hello'')] [])
       = AssistantPromptMessage (CStr ''hello'') []"
  using user_text_round_trip[of "''output_text''" "''hello''" "\<lambda>m t. int (length t)"
      "\<lambda>j. ''{}''" "''gpt-5''" "[]" "[]" None "[]" "''msg_1''" None "Some ''gpt-5''"
      "''resp_1''" "[UserPromptMessage (CStr ''hello'')]" "[]"]
  by simp

section \<open>Tool parameters given as a JSON string\<close>

text \<open>
  C6, at the input where the code departs from it. Parameters given as a string that
  \<open>json.loads\<close> accepts become the parsed value whatever it is: the string \<open>[]\<close> gives
  the empty list as the tool's parameters, not the empty-object schema.
\<close>

theorem tool_parameters_parsed_value_passes_through:
  assumes "loads p = Some v"
  shows "convert_tool_to_response_tool loads
           \<lparr>tool_name = n, tool_description = d, tool_parameters = JStr p\<rparr>
         = JDict [(''type'', JStr ''function''), (''name'', JStr n),
                  (''description'', JStr d), (''parameters'', v)]"
  using assms by (simp add: convert_tool_to_response_tool_def str_or_def)

theorem tool_parameters_parsed_value_passes_through_witness:
  "convert_tool_to_response_tool (\<lambda>s. if s = ''[]'' then Some (JList []) else None)
           \<lparr>tool_name = ''f'', tool_description = ''d'', tool_parameters = JStr ''[]''\<rparr>
         = JDict [(''type'', JStr ''function''), (''name'', JStr ''f''),
                  (''description'', JStr ''d''), (''parameters'', JList [])]
   \<and> JList [] \<noteq> empty_schema"
  using tool_parameters_parsed_value_passes_through[of
      "\<lambda>s. if s = ''[]'' then Some (JList []) else None" "''[]''" "JList []" "''f''" "''d''"]
  by (simp add: empty_schema_def)

section \<open>Calls that are announced and never finalized\<close>

lemma same_but_set_buffered: "same_but cid (set_buffered cid a s) s"
  by (auto simp: same_but_def set_buffered_def split: option.splits)

lemma item_done_arguments_same:
  assumes "same_but cid s t" and "si_call_id item \<noteq> cid"
  shows "item_done_arguments (pending_tool_calls s) item
       = item_done_arguments (pending_tool_calls t) item"
proof -
  from assms have "pending_tool_calls s (si_call_id item) = pending_tool_calls t (si_call_id item)"
    by (simp add: same_but_def)
  then show ?thesis by (simp only: item_done_arguments_def)
qed

lemma step_same_but:
  assumes "same_but cid s t" and "\<not> item_done_for cid e"
  shows "same_but cid (fst (step model pms s e)) (fst (step model pms t e))
     \<and> snd (step model pms s e) = snd (step model pms t e)"
proof (cases e)
  case (OutputTextDelta d i)
  then show ?thesis using assms by (auto simp: same_but_def)
next
  case (OutputItemAdded io)
  then show ?thesis using assms by (auto simp: same_but_def split: option.splits)
next
  case (FunctionCallArgumentsDelta d i)
  then show ?thesis using assms
    by (cases "resolve_call_id i (current_tool_call t)")
       (auto simp: same_but_def split: option.splits)
next
  case (FunctionCallArgumentsDone i fa)
  then show ?thesis using assms
    by (cases "resolve_call_id i (current_tool_call t)")
       (auto simp: same_but_def split: option.splits)
next
  case (OutputItemDone io)
  show ?thesis
  proof (cases io)
    case None
    then show ?thesis using OutputItemDone assms by simp
  next
    case (Some item)
    show ?thesis
    proof (cases "si_type item = ''function_call''")
      case False
      then show ?thesis using OutputItemDone Some assms by simp
    next
      case True
      with assms(2) OutputItemDone Some have ne: "si_call_id item \<noteq> cid" by simp
      note ida = item_done_arguments_same[OF assms(1) ne]
      show ?thesis using OutputItemDone Some True assms(1) ne
        by (auto simp: same_but_def Let_def ida)
    qed
  qed
next
  case (ResponseCompleted r)
  then show ?thesis using assms by (auto simp: same_but_def)
next
  case (OtherEvent ty)
  then show ?thesis using assms by simp
qed

lemma run_events_same_but:
  assumes "same_but cid s t" and "\<not> list_ex (item_done_for cid) es"
  shows "same_but cid (fst (run_events model pms s es)) (fst (run_events model pms t es))
     \<and> snd (run_events model pms s es) = snd (run_events model pms t es)"
  using assms
proof (induction es arbitrary: s t)
  case Nil
  then show ?case by simp
next
  case (Cons e es)
  from Cons.prems have ne: "\<not> item_done_for cid e" "\<not> list_ex (item_done_for cid) es"
    by simp_all
  note st = step_same_but[OF Cons.prems(1) ne(1), of model pms]
  note ih = Cons.IH[OF conjunct1[OF st] ne(2)]
  show ?case using st ih by (simp add: split_beta)
qed

lemma step_no_chunk_for:
  assumes "\<not> item_done_for cid e"
  shows "list_all (\<lambda>ch. delta_tool_calls ch = [] \<or> system_fingerprint ch \<noteq> cid)
           (snd (step model pms s e))"
  using assms by (cases e) (auto simp: Let_def split: option.splits)

lemma step_tool_call_count:
  "length (concat (map delta_tool_calls (snd (step model pms s e))))
     = (if finalizing e then 1 else 0)"
  by (cases e) (auto simp: Let_def split: option.splits)

lemma run_no_chunk_for:
  assumes "\<not> list_ex (item_done_for cid) es"
  shows "list_all (\<lambda>ch. delta_tool_calls ch = [] \<or> system_fingerprint ch \<noteq> cid)
           (snd (run_events model pms s es))"
  using assms
proof (induction es arbitrary: s)
  case Nil
  then show ?case by simp
next
  case (Cons e es)
  then show ?case using step_no_chunk_for[of cid e model pms s]
    by (simp add: split_beta)
qed

lemma run_tool_call_count:
  "length (concat (map delta_tool_calls (snd (run_events model pms s es))))
     = length (filter finalizing es)"
proof (induction es arbitrary: s)
  case Nil
  then show ?case by simp
next
  case (Cons e es)
  show ?case using step_tool_call_count[of model pms s e] Cons.IH
    by (simp add: split_beta)
qed

lemma final_chunk_same_but:
  "same_but cid s t \<Longrightarrow>
     final_chunk ntok dumps model pms tools s = final_chunk ntok dumps model pms tools t"
  by (simp add: same_but_def final_chunk_def finish_reason_of_def)

lemma stream_from_same_but:
  assumes "same_but cid s t" and "\<not> list_ex (item_done_for cid) es"
  shows "stream_from ntok dumps model pms tools s es = stream_from ntok dumps model pms tools t es"
  using run_events_same_but[OF assms, of model pms]
  by (simp add: stream_from_def split_beta final_chunk_same_but[of cid])

lemma handle_is_stream_from:
  "handle_responses_stream_response ntok dumps model events pms tools
     = stream_from ntok dumps model pms tools init_state events"
  by (simp add: handle_responses_stream_response_def stream_from_def)

lemma stream_from_append:
  "stream_from ntok dumps model pms tools s (xs @ ys)
     = snd (run_events model pms s xs)
       @ stream_from ntok dumps model pms tools (fst (run_events model pms s xs)) ys"
  by (simp add: stream_from_def run_events_append split_beta)

text \<open>
  C10. In a stream without an output-item-done event for the call id of an announced
  function call, no chunk with a tool call is emitted under that call id; the
  finalized tool calls are as many as the finalizing output-item-done events, all of
  other calls; without such an event the finish reason is \<open>stop\<close>; and the buffered
  arguments of the abandoned call never reach the output: overwriting them at any point
  of the stream leaves every chunk as it is.
\<close>

theorem abandoned_call_dropped:
  fixes ntok dumps model pms tools cid events
  defines "cs \<equiv> handle_responses_stream_response ntok dumps model events pms tools"
  assumes "\<not> list_ex (item_done_for cid) events"
  shows "list_all (\<lambda>ch. delta_tool_calls ch = [] \<or> system_fingerprint ch \<noteq> cid) cs
    \<and> length (concat (map delta_tool_calls cs)) = length (filter finalizing events)
    \<and> (filter finalizing events = [] \<longrightarrow> finish_reason (last cs) = Some ''stop'')
    \<and> (\<forall>pre post a. events = pre @ post \<longrightarrow>
          cs = snd (run_events model pms init_state pre)
               @ stream_from ntok dumps model pms tools
                   (set_buffered cid a (fst (run_events model pms init_state pre))) post)"
proof -
  obtain s out where rn: "run_events model pms init_state events = (s, out)"
    by (cases "run_events model pms init_state events")
  let ?fc = "final_chunk ntok dumps model pms tools s"
  have cs: "cs = out @ [?fc]"
    by (simp add: cs_def handle_responses_stream_response_def rn)
  have fc: "delta_tool_calls ?fc = []" "finish_reason ?fc = Some (finish_reason_of s)"
    by (simp_all add: final_chunk_def)
  have a: "list_all (\<lambda>ch. delta_tool_calls ch = [] \<or> system_fingerprint ch \<noteq> cid) cs"
    using run_no_chunk_for[OF assms(2), of model pms init_state] fc(1)
    by (simp add: cs rn)
  have b: "length (concat (map delta_tool_calls cs)) = length (filter finalizing events)"
    using run_tool_call_count[of model pms init_state events] fc(1)
    by (simp add: cs rn)
  have tc: "tool_calls s = concat (map delta_tool_calls out)"
    using run_events_acc[OF rn] by (simp add: init_state_def)
  have c: "filter finalizing events = [] \<longrightarrow> finish_reason (last cs) = Some ''stop''"
  proof
    assume "filter finalizing events = []"
    with b have "concat (map delta_tool_calls cs) = []" by simp
    with fc(1) tc have "tool_calls s = []" by (simp add: cs)
    then show "finish_reason (last cs) = Some ''stop''"
      by (simp add: cs fc(2) finish_reason_of_def)
  qed
  have d: "cs = snd (run_events model pms init_state pre)
               @ stream_from ntok dumps model pms tools
                   (set_buffered cid a (fst (run_events model pms init_state pre))) post"
    if ev: "events = pre @ post" for pre post a
  proof -
    from assms(2) ev have np: "\<not> list_ex (item_done_for cid) post" by simp
    have "cs = stream_from ntok dumps model pms tools init_state (pre @ post)"
      by (simp add: cs_def handle_is_stream_from ev)
    also have "\<dots> = snd (run_events model pms init_state pre)
        @ stream_from ntok dumps model pms tools (fst (run_events model pms init_state pre)) post"
      by (rule stream_from_append)
    also have "stream_from ntok dumps model pms tools (fst (run_events model pms init_state pre)) post
        = stream_from ntok dumps model pms tools
            (set_buffered cid a (fst (run_events model pms init_state pre))) post"
      using stream_from_same_but[OF same_but_set_buffered np] by simp
    finally show ?thesis .
  qed
  from a b c d show ?thesis by blast
qed

theorem abandoned_call_dropped_witness:
  "\<not> list_ex (item_done_for ''c1'')
       [OutputItemAdded (Some \<lparr>si_type = ''function_call'', si_call_id = ''c1'',
                               si_name = ''f'', si_arguments = []\<rparr>),
        FunctionCallArgumentsDelta ''{\"a\":'' []]
   \<and> map delta_tool_calls
       (handle_responses_stream_response (\<lambda>m t. int (length t)) (\<lambda>j. ''{}'') ''m''
          [OutputItemAdded (Some \<lparr>si_type = ''function_call'', si_call_id = ''c1'',
                                  si_name = ''f'', si_arguments = []\<rparr>),
           FunctionCallArgumentsDelta ''{\"a\":'' []] [] []) = [[]]
   \<and> finish_reason (last
       (handle_responses_stream_response (\<lambda>m t. int (length t)) (\<lambda>j. ''{}'') ''m''
          [OutputItemAdded (Some \<lparr>si_type = ''function_call'', si_call_id = ''c1'',
                                  si_name = ''f'', si_arguments = []\<rparr>),
           FunctionCallArgumentsDelta ''{\"a\":'' []] [] [])) = Some ''stop''
   \<and> handle_responses_stream_response (\<lambda>m t. int (length t)) (\<lambda>j. ''{}'') ''m''
          [OutputItemAdded (Some \<lparr>si_type = ''function_call'', si_call_id = ''c1'',
                                  si_name = ''f'', si_arguments = []\<rparr>),
           FunctionCallArgumentsDelta ''{\"a\":'' []] [] []
       = stream_from (\<lambda>m t. int (length t)) (\<lambda>j. ''{}'') ''m'' [] []
           (set_buffered ''c1'' ''zzz''
              (fst (run_events ''m'' [] init_state
                 [OutputItemAdded (Some \<lparr>si_type = ''function_call'', si_call_id = ''c1'',
                                         si_name = ''f'', si_arguments = []\<rparr>)])))
           [FunctionCallArgumentsDelta ''{\"a\":'' []]"
proof -
  let ?added = "OutputItemAdded (Some \<lparr>si_type = ''function_call'', si_call_id = ''c1'',
                                       si_name = ''f'', si_arguments = []\<rparr>)"
  let ?delta = "FunctionCallArgumentsDelta ''{\"a\":'' []"
  have h: "\<not> list_ex (item_done_for ''c1'') [?added, ?delta]" by simp
  note w = abandoned_call_dropped[OF h, of "\<lambda>m t. int (length t)" "\<lambda>j. ''{}''" "''m''" "[]" "[]"]
  have nf: "filter finalizing [?added, ?delta] = []" by simp
  have pre: "snd (run_events ''m'' [] init_state [?added]) = []" by simp
  have sp: "[?added, ?delta] = [?added] @ [?delta]" by simp
  note fin = w[THEN conjunct2, THEN conjunct2, THEN conjunct1, rule_format, OF nf]
  note d0 = w[THEN conjunct2, THEN conjunct2, THEN conjunct2, rule_format,
      of "[?added]" "[?delta]" "''zzz''", OF sp]
  have d: "handle_responses_stream_response (\<lambda>m t. int (length t)) (\<lambda>j. ''{}'') ''m''
          [?added, ?delta] [] []
       = stream_from (\<lambda>m t. int (length t)) (\<lambda>j. ''{}'') ''m'' [] []
           (set_buffered ''c1'' ''zzz'' (fst (run_events ''m'' [] init_state [?added])))
           [?delta]"
    using d0 unfolding pre by (simp only: append_Nil)
  have tcs: "map delta_tool_calls
       (handle_responses_stream_response (\<lambda>m t. int (length t)) (\<lambda>j. ''{}'') ''m''
          [?added, ?delta] [] []) = [[]]"
    by (simp add: handle_responses_stream_response_def init_state_def resolve_call_id_def
        final_chunk_def)
  show ?thesis
    by (intro conjI) (rule h, rule tcs, rule fin, rule d)
qed

section \<open>Performance tiers: resolution of the model id\<close>



lemma lower_Nil [simp]: "lower [] = []"
  by (simp add: lower_def)

lemma lower_eq_Nil [simp]: "lower a = [] \<longleftrightarrow> a = []"
  by (simp add: lower_def)










































end
